theory Spec2Isabelle
  imports Complex_Main
begin

section \<open>Data model\<close>

text \<open>
  The repository is a React component (\<open>BedDualZone\<close>) and a demo shell (\<open>BedDemo\<close>).
  A JavaScript \<open>number\<close> is modelled as a rational, so arithmetic is exact; there is no
  NaN and no infinity. The string-literal unions \<open>Mode\<close>, \<open>'F' | 'C'\<close> and the page
  name are kept as the strings they are at run time, so that membership in each
  enumeration is a property of the operations rather than of a type. \<open>Side\<close> is the key
  type of the two-entry records and is a datatype; a \<open>Record<Side, X>\<close> is a function
  from \<open>Side\<close>.
\<close>

datatype Side = Left | Right

text \<open>\<open>type Mode = 'off' | 'cool' | 'heat'\<close>, and the three page names of the demo.\<close>

definition Mode :: "string set" where
  "Mode = {''off'', ''cool'', ''heat''}"

definition Page :: "string set" where
  "Page = {''home'', ''settings'', ''schedule''}"

record Schedule =
  running :: bool
  nextStart :: "string option"

record ZoneState =
  mode :: string
  currentTemp :: rat
  targetTemp :: "rat option"
  schedule :: "Schedule option"

record DemoState =
  zones :: "Side \<Rightarrow> ZoneState"
  editing :: Side
  unit :: string
  page :: string
  sideNames :: "Side \<Rightarrow> string"

record TempCfg =
  cfg_min :: rat
  cfg_max :: rat
  cfg_mid :: rat
  cfg_step :: rat

text \<open>\<open>Math.round\<close>: the nearest integer, a tie going up.\<close>

definition Math_round :: "rat \<Rightarrow> int" where
  "Math_round x = \<lfloor>x + 1 / 2\<rfloor>"

section \<open>The demo shell\<close>

text \<open>The five \<open>useState\<close> cells at mount.\<close>

definition initial :: DemoState where
  "initial =
     \<lparr> zones = (\<lambda>side. case side of
          Left \<Rightarrow> \<lparr> mode = ''cool'', currentTemp = 72, targetTemp = Some 68,
                    schedule = Some \<lparr> running = False, nextStart = None \<rparr> \<rparr>
        | Right \<Rightarrow> \<lparr> mode = ''off'', currentTemp = 70, targetTemp = None,
                     schedule = Some \<lparr> running = False, nextStart = None \<rparr> \<rparr>),
       editing = Left,
       unit = ''F'',
       page = ''home'',
       sideNames = (\<lambda>side. case side of Left \<Rightarrow> ''Left'' | Right \<Rightarrow> ''Right'') \<rparr>"

definition updateZone :: "Side \<Rightarrow> (ZoneState \<Rightarrow> ZoneState) \<Rightarrow> DemoState \<Rightarrow> DemoState" where
  "updateZone side updater s = s\<lparr> zones := (\<lambda>z. z(side := updater (z side))) (zones s) \<rparr>"

definition fToC :: "rat \<Rightarrow> rat" where
  "fToC f = ((f - 32) * 5) / 9"

definition cToF :: "rat \<Rightarrow> rat" where
  "cToF c = (c * 9) / 5 + 32"

definition toUnit :: "string \<Rightarrow> rat \<Rightarrow> rat" where
  "toUnit u t =
     (if u = ''C'' then of_int (Math_round (fToC t * 10)) / 10 else of_int (Math_round t))"

definition fromUnit :: "string \<Rightarrow> rat \<Rightarrow> rat" where
  "fromUnit u t = (if u = ''C'' then cToF t else t)"

definition tempCfg :: "string \<Rightarrow> TempCfg" where
  "tempCfg u =
     (if u = ''C'' then \<lparr> cfg_min = 13, cfg_max = 43.5, cfg_mid = 28, cfg_step = 0.5 \<rparr>
      else \<lparr> cfg_min = 55, cfg_max = 110, cfg_mid = 82, cfg_step = 1 \<rparr>)"

text \<open>The updater that \<open>changeTemp\<close> hands to \<open>updateZone\<close>, under the unit of the render.\<close>

definition changeTemp_updater :: "string \<Rightarrow> rat \<Rightarrow> ZoneState \<Rightarrow> ZoneState" where
  "changeTemp_updater u delta z =
     (let currentTarget =
            toUnit u (case targetTemp z of None \<Rightarrow> fromUnit u (cfg_mid (tempCfg u)) | Some t \<Rightarrow> t);
          next = currentTarget + delta;
          next = min (cfg_max (tempCfg u)) (max (cfg_min (tempCfg u)) next);
          nextF = fromUnit u next;
          mode' =
            (if mode z = ''off'' then mode z
             else if nextF > currentTemp z then ''heat''
             else if nextF < currentTemp z then ''cool''
             else mode z)
      in z\<lparr> targetTemp := Some nextF, mode := mode' \<rparr>)"

definition changeTemp :: "Side \<Rightarrow> rat \<Rightarrow> DemoState \<Rightarrow> DemoState" where
  "changeTemp side delta s = updateZone side (changeTemp_updater (unit s) delta) s"

definition togglePower_updater :: "ZoneState \<Rightarrow> ZoneState" where
  "togglePower_updater z =
     (if mode z = ''off'' then
        (let target = (case targetTemp z of None \<Rightarrow> currentTemp z | Some t \<Rightarrow> t);
             mode' = (if target > currentTemp z then ''heat''
                      else if target < currentTemp z then ''cool'' else ''heat'')
         in z\<lparr> mode := mode', targetTemp := Some target \<rparr>)
      else z\<lparr> mode := ''off'' \<rparr>)"

definition togglePower :: "Side \<Rightarrow> DemoState \<Rightarrow> DemoState" where
  "togglePower side s = updateZone side togglePower_updater s"

text \<open>
  \<open>{ ...z.schedule, running }\<close>: spreading an absent schedule contributes nothing, so
  \<open>nextStart\<close> survives exactly when there was a schedule that had one.
\<close>

definition toggleSchedule_updater :: "bool \<Rightarrow> ZoneState \<Rightarrow> ZoneState" where
  "toggleSchedule_updater r z =
     z\<lparr> schedule := Some \<lparr> running = r,
          nextStart = (case schedule z of None \<Rightarrow> None | Some sch \<Rightarrow> nextStart sch) \<rparr> \<rparr>"

definition toggleSchedule :: "Side \<Rightarrow> bool \<Rightarrow> DemoState \<Rightarrow> DemoState" where
  "toggleSchedule side r s = updateZone side (toggleSchedule_updater r) s"

definition setScheduleStart_updater :: "string \<Rightarrow> ZoneState \<Rightarrow> ZoneState" where
  "setScheduleStart_updater start z =
     z\<lparr> schedule := Some \<lparr> running = (case schedule z of None \<Rightarrow> False | Some sch \<Rightarrow> running sch),
          nextStart = Some start \<rparr> \<rparr>"

definition setScheduleStart :: "Side \<Rightarrow> string \<Rightarrow> DemoState \<Rightarrow> DemoState" where
  "setScheduleStart side start s = updateZone side (setScheduleStart_updater start) s"

definition setEditing :: "Side \<Rightarrow> DemoState \<Rightarrow> DemoState" where
  "setEditing side s = s\<lparr> editing := side \<rparr>"

definition setUnit :: "string \<Rightarrow> DemoState \<Rightarrow> DemoState" where
  "setUnit u s = s\<lparr> unit := u \<rparr>"

definition setPage :: "string \<Rightarrow> DemoState \<Rightarrow> DemoState" where
  "setPage p s = s\<lparr> page := p \<rparr>"

definition setSideNames :: "((Side \<Rightarrow> string) \<Rightarrow> (Side \<Rightarrow> string)) \<Rightarrow> DemoState \<Rightarrow> DemoState" where
  "setSideNames f s = s\<lparr> sideNames := f (sideNames s) \<rparr>"

definition pageTitle :: "DemoState \<Rightarrow> string" where
  "pageTitle s =
     (if page s = ''home'' then ''Home'' else if page s = ''settings'' then ''Settings''
      else ''Schedule'')"


subsection \<open>User interaction\<close>

text \<open>
  One constructor for each control that has a handler. \<open>NavAction\<close> names the three
  \<open>BottomNavigationAction\<close> elements; \<open>actionValue\<close> is the \<open>value\<close> attribute of each.
\<close>

datatype NavAction = HomeAction | ScheduleAction | SettingsAction

fun actionValue :: "NavAction \<Rightarrow> string" where
  "actionValue HomeAction = ''home''"
| "actionValue ScheduleAction = ''schedule''"
| "actionValue SettingsAction = ''settings''"

datatype Event =
    SideClick Side
  | TabChange Side
  | PowerClick
  | MinusClick
  | PlusClick
  | UnitSwitch bool
  | LeftName string
  | RightName string
  | ScheduleSwitch bool
  | StartsAt string
  | Navigate NavAction

text \<open>
  A control can be used only on the page that renders it: the page is \<open>'home'\<close>, else
  \<open>'settings'\<close>, else the schedule page; the bottom navigation is on every page.
\<close>

definition onHomePage :: "DemoState \<Rightarrow> bool" where
  "onHomePage s = (page s = ''home'')"

definition onSettingsPage :: "DemoState \<Rightarrow> bool" where
  "onSettingsPage s = (if page s = ''home'' then False else page s = ''settings'')"

definition onSchedulePage :: "DemoState \<Rightarrow> bool" where
  "onSchedulePage s = (if page s = ''home'' then False else if page s = ''settings'' then False else True)"

fun enabled :: "DemoState \<Rightarrow> Event \<Rightarrow> bool" where
  "enabled s (SideClick k) = (if onHomePage s then True else onSchedulePage s)"
| "enabled s (TabChange v) = (if onHomePage s then True else onSchedulePage s)"
| "enabled s PowerClick = onHomePage s"
| "enabled s MinusClick = onHomePage s"
| "enabled s PlusClick = onHomePage s"
| "enabled s (UnitSwitch checked) = onSettingsPage s"
| "enabled s (LeftName v) = onSettingsPage s"
| "enabled s (RightName v) = onSettingsPage s"
| "enabled s (ScheduleSwitch checked) = onSchedulePage s"
| "enabled s (StartsAt v) = onSchedulePage s"
| "enabled s (Navigate a) = True"

fun dispatch :: "Event \<Rightarrow> DemoState \<Rightarrow> DemoState" where
  "dispatch (SideClick k) s = setEditing k s"
| "dispatch (TabChange v) s = setEditing v s"
| "dispatch PowerClick s = togglePower (editing s) s"
| "dispatch MinusClick s = changeTemp (editing s) (- cfg_step (tempCfg (unit s))) s"
| "dispatch PlusClick s = changeTemp (editing s) (cfg_step (tempCfg (unit s))) s"
| "dispatch (UnitSwitch checked) s = setUnit (if checked then ''C'' else ''F'') s"
| "dispatch (LeftName v) s = setSideNames (\<lambda>n. n(Left := v)) s"
| "dispatch (RightName v) s = setSideNames (\<lambda>n. n(Right := v)) s"
| "dispatch (ScheduleSwitch checked) s = toggleSchedule (editing s) checked s"
| "dispatch (StartsAt v) s = setScheduleStart (editing s) v s"
| "dispatch (Navigate a) s = setPage (actionValue a) s"

text \<open>The states the demo can be in: the mount state and what enabled events lead to.\<close>

inductive reachable :: "DemoState \<Rightarrow> bool" where
  mount: "reachable initial"
| event: "reachable s \<Longrightarrow> enabled s e \<Longrightarrow> reachable (dispatch e s)"

text \<open>A run of events, oldest first.\<close>

fun run :: "Event list \<Rightarrow> DemoState \<Rightarrow> DemoState" where
  "run [] s = s"
| "run (e # es) s = run es (dispatch e s)"

section \<open>The zone display widget\<close>

text \<open>
  \<open>BedDualZone\<close> reads its props and, through \<open>useTheme()\<close>, the theme of the enclosing
  provider; both are arguments here, as is the library function \<open>alpha\<close>. Of the theme
  only the palette entries that reach a modelled style are kept. The model keeps what
  the component computes from its props (names, labels, texts, the style chosen by mode,
  the highlight of the edited side, the click handler); CSS that is the same constant in
  every render and the pass-through \<open>sx\<close> prop are left out.
\<close>

record Theme =
  grey200 :: string
  grey400 :: string
  grey700 :: string
  grey800 :: string
  secondary_main :: string
  info_main :: string
  error_main :: string

record ModeSx =
  background :: string
  borderColor :: string
  dotColor :: string

record EditingSx =
  boxShadow :: string
  afterBoxShadow :: string
  zIndex :: nat

record 'a ZoneView =
  zkey :: Side
  ariaLabel :: string
  ariaPressed :: bool
  title :: string
  borderRadius :: string
  modeSx :: "ModeSx option"
  editSx :: "EditingSx option"
  opacity :: rat
  sideLabel :: string
  tempText :: string
  targetText :: "string option"
  scheduleText :: "string option"
  onClick :: "'a option"

record 'a BedView =
  maxWidth :: rat
  zoneViews :: "'a ZoneView list"

text \<open>
  A template literal prints an integral number in decimal, with a minus sign below zero
  (and without exponent notation below \<open>10\<^sup>2\<^sup>1\<close>).
\<close>

definition digit :: "nat \<Rightarrow> char" where
  "digit n = ''0123456789'' ! n"

fun showNat :: "nat \<Rightarrow> string" where
  "showNat n = (if n < 10 then [digit n] else showNat (n div 10) @ [digit (n mod 10)])"

declare showNat.simps [simp del]

definition showInt :: "int \<Rightarrow> string" where
  "showInt i = (if i < 0 then CHR ''-'' # showNat (nat (- i)) else showNat (nat i))"

definition highlight :: string where
  "highlight = ''rgba(255,255,255,0.05)''"

definition shadow :: string where
  "shadow = ''rgba(0,0,0,0.1)''"

definition baseBackground :: "Theme \<Rightarrow> (string \<Rightarrow> rat \<Rightarrow> string) \<Rightarrow> string" where
  "baseBackground theme alpha =
     ''linear-gradient(180deg, '' @ alpha (grey800 theme) 0.9 @ '', ''
       @ alpha (grey700 theme) 0.9 @ '')''"

definition tintBackground :: "(string \<Rightarrow> rat \<Rightarrow> string) \<Rightarrow> string \<Rightarrow> ModeSx" where
  "tintBackground alpha color =
     \<lparr> background =
         ''linear-gradient(180deg, '' @ highlight @ '', '' @ shadow @ ''), '' @ alpha color 0.18,
       borderColor = alpha color 0.45,
       dotColor = color \<rparr>"

text \<open>\<open>modeStyles\<close> is an object with the three keys; \<open>modeStyles[state.mode]\<close> looks one up.\<close>

definition modeStyles :: "Theme \<Rightarrow> (string \<Rightarrow> rat \<Rightarrow> string) \<Rightarrow> string \<rightharpoonup> ModeSx" where
  "modeStyles theme alpha =
     [''cool'' \<mapsto> tintBackground alpha (info_main theme),
      ''heat'' \<mapsto> tintBackground alpha (error_main theme),
      ''off'' \<mapsto> \<lparr> background = baseBackground theme alpha, borderColor = ''divider'',
                  dotColor = grey400 theme \<rparr>]"

definition editingSx :: "Theme \<Rightarrow> (string \<Rightarrow> rat \<Rightarrow> string) \<Rightarrow> EditingSx" where
  "editingSx theme alpha =
     \<lparr> boxShadow = ''inset 0 0 0 2px '' @ grey200 theme @ '', inset 0 1px 2px rgba(0,0,0,0.12)'',
       afterBoxShadow = ''0 0 6px '' @ alpha (secondary_main theme) 0.28,
       zIndex = 2 \<rparr>"

definition formatTemp :: "string \<Rightarrow> rat \<Rightarrow> int" where
  "formatTemp u t = (if u = ''C'' then Math_round (((t - 32) * 5) / 9) else Math_round t)"

definition unitLabel :: "string \<Rightarrow> string" where
  "unitLabel u = CHR 0xB0 # u"

definition scheduleLabel :: "ZoneState \<Rightarrow> string option" where
  "scheduleLabel state =
     (if (case schedule state of None \<Rightarrow> False | Some sch \<Rightarrow> running sch)
      then Some ''Schedule running''
      else (case (case schedule state of None \<Rightarrow> None | Some sch \<Rightarrow> nextStart sch) of
              None \<Rightarrow> None
            | Some start \<Rightarrow> if start \<noteq> [] then Some (''Starts at '' @ start) else None))"

text \<open>
  The two conditional children of a zone: the target line, rendered under
  \<open>state.mode !== 'off' && state.targetTemp !== undefined\<close>, and the schedule badge,
  rendered under \<open>scheduleLabel &&\<close> (a string counts as true when it is not empty).
  \<open>None\<close> is a child that is not rendered.
\<close>

definition targetLine :: "string \<Rightarrow> ZoneState \<Rightarrow> string option" where
  "targetLine u state =
     (if mode state \<noteq> ''off'' then
        (case targetTemp state of
           None \<Rightarrow> None
         | Some target \<Rightarrow>
             Some (if currentTemp state = target
                   then ''Maintaining '' @ showInt (formatTemp u target) @ unitLabel u
                   else (if mode state = ''cool'' then ''Cooling to'' else ''Heating to'')
                          @ '' '' @ showInt (formatTemp u target) @ unitLabel u))
      else None)"

definition scheduleBadge :: "ZoneState \<Rightarrow> string option" where
  "scheduleBadge state =
     (case scheduleLabel state of
        None \<Rightarrow> None
      | Some l \<Rightarrow> if l \<noteq> [] then Some l else None)"

text \<open>The body of \<open>zones.map(({ key, state, name }) => ...)\<close>.\<close>

definition zoneView ::
  "Theme \<Rightarrow> (string \<Rightarrow> rat \<Rightarrow> string) \<Rightarrow> Side option \<Rightarrow> (Side \<Rightarrow> 'a) option \<Rightarrow> string \<Rightarrow>
     Side \<Rightarrow> ZoneState \<Rightarrow> string \<Rightarrow> 'a ZoneView" where
  "zoneView theme alpha editingSide onSideClick u key state name =
     (let isEditing = (editingSide = Some key);
          label = name @ '' side: '' @ mode state @ (if isEditing then '', editing'' else [])
      in \<lparr> zkey = key,
           ariaLabel = label,
           ariaPressed = isEditing,
           title = label,
           borderRadius = (if key = Left then ''16px 0 0 16px'' else ''0 16px 16px 0''),
           modeSx = modeStyles theme alpha (mode state),
           editSx = (if isEditing then Some (editingSx theme alpha) else None),
           opacity = (if editingSide \<noteq> None \<and> \<not> isEditing then 0.6 else 1),
           sideLabel = name,
           tempText = showInt (formatTemp u (currentTemp state)) @ unitLabel u,
           targetText = targetLine u state,
           scheduleText = scheduleBadge state,
           onClick = (case onSideClick of None \<Rightarrow> None | Some f \<Rightarrow> Some (f key)) \<rparr>)"

text \<open>
  The props in the order of the destructuring pattern; an optional prop is an option,
  \<open>None\<close> standing for a prop that was not passed (and for \<open>null\<close>).
\<close>

definition BedDualZone ::
  "Theme \<Rightarrow> (string \<Rightarrow> rat \<Rightarrow> string) \<Rightarrow> ZoneState \<Rightarrow> ZoneState \<Rightarrow> Side option \<Rightarrow>
     (Side \<Rightarrow> 'a) option \<Rightarrow> rat option \<Rightarrow> (Side \<Rightarrow> string option) option \<Rightarrow> string option \<Rightarrow>
     'a BedView" where
  "BedDualZone theme alpha left right editingSide onSideClick width names unitProp =
     (let w = (case width of None \<Rightarrow> 360 | Some x \<Rightarrow> x);
          u = (case unitProp of None \<Rightarrow> ''F'' | Some x \<Rightarrow> x);
          leftName = (case (case names of None \<Rightarrow> None | Some n \<Rightarrow> n Left) of
                        None \<Rightarrow> ''Left'' | Some x \<Rightarrow> x);
          rightName = (case (case names of None \<Rightarrow> None | Some n \<Rightarrow> n Right) of
                         None \<Rightarrow> ''Right'' | Some x \<Rightarrow> x);
          zs = [(Left, left, leftName), (Right, right, rightName)]
      in \<lparr> maxWidth = w,
           zoneViews =
             map (\<lambda>(key, state, name). zoneView theme alpha editingSide onSideClick u key state name)
               zs \<rparr>)"

text \<open>What a click on the zone of side \<open>k\<close> yields: the result of that zone's \<open>onClick\<close>.\<close>

definition clickZone :: "'a BedView \<Rightarrow> Side \<Rightarrow> 'a option" where
  "clickZone v k =
     (case filter (\<lambda>z. zkey z = k) (zoneViews v) of [] \<Rightarrow> None | z # _ \<Rightarrow> onClick z)"

text \<open>
  The widget as the demo renders it, on the home page and on the schedule page; the
  settings page has none.
\<close>

definition demoWidget ::
  "Theme \<Rightarrow> (string \<Rightarrow> rat \<Rightarrow> string) \<Rightarrow> DemoState \<Rightarrow> (DemoState \<Rightarrow> DemoState) BedView option" where
  "demoWidget theme alpha s =
     (let w = BedDualZone theme alpha (zones s Left) (zones s Right) (Some (editing s))
                (Some (\<lambda>k. setEditing k)) (Some 360) (Some (\<lambda>k. Some (sideNames s k)))
                (Some (unit s))
      in if onHomePage s then Some w
         else if onSettingsPage s then None
         else Some w)"

section \<open>Auxiliary facts\<close>






lemma zones_updateZone:
  "zones (updateZone side f s) k = (if k = side then f (zones s side) else zones s k)"
  by (simp add: updateZone_def)

lemma updateZone_others:
  "editing (updateZone side f s) = editing s" "unit (updateZone side f s) = unit s"
  "page (updateZone side f s) = page s" "sideNames (updateZone side f s) = sideNames s"
  by (simp_all add: updateZone_def)

lemmas zone_ops = changeTemp_def togglePower_def toggleSchedule_def setScheduleStart_def

lemmas setters = setEditing_def setUnit_def setPage_def setSideNames_def

subsection \<open>Modes stay in the enumeration\<close>

lemma changeTemp_updater_mode: "mode z \<in> Mode \<Longrightarrow> mode (changeTemp_updater u d z) \<in> Mode"
  by (auto simp add: changeTemp_updater_def Let_def Mode_def)

lemma togglePower_updater_mode: "mode (togglePower_updater z) \<in> Mode"
  by (simp add: togglePower_updater_def Let_def Mode_def)

lemma toggleSchedule_updater_mode: "mode (toggleSchedule_updater r z) = mode z"
  by (simp add: toggleSchedule_updater_def)

lemma setScheduleStart_updater_mode: "mode (setScheduleStart_updater v z) = mode z"
  by (simp add: setScheduleStart_updater_def)

lemmas updater_modes = changeTemp_updater_mode togglePower_updater_mode
  toggleSchedule_updater_mode setScheduleStart_updater_mode

lemma modes_dispatch:
  assumes "\<forall>k. mode (zones s k) \<in> Mode"
  shows "\<forall>k. mode (zones (dispatch e s) k) \<in> Mode"
  using assms by (cases e) (simp_all add: zone_ops zones_updateZone updater_modes setters)

lemma modes_initial: "\<forall>k. mode (zones initial k) \<in> Mode"
  by (simp add: initial_def Mode_def split: Side.split)

lemma reachable_modes: "reachable s \<Longrightarrow> \<forall>k. mode (zones s k) \<in> Mode"
proof (induction rule: reachable.induct)
  case mount
  show ?case by (rule modes_initial)
next
  case (event s e)
  from event.IH show ?case by (rule modes_dispatch)
qed

subsection \<open>The page stays in the enumeration\<close>

lemma actionValue_Page: "actionValue a \<in> Page"
  by (cases a) (simp_all add: Page_def)

lemma page_dispatch: "page s \<in> Page \<Longrightarrow> page (dispatch e s) \<in> Page"
  by (cases e) (simp_all add: zone_ops updateZone_others setters actionValue_Page)

lemma reachable_page: "reachable s \<Longrightarrow> page s \<in> Page"
proof (induction rule: reachable.induct)
  case mount
  show ?case by (simp add: initial_def Page_def)
next
  case (event s e)
  from event.IH show ?case by (rule page_dispatch)
qed

subsection \<open>The target after a press\<close>









subsection \<open>The widget\<close>

lemma clickZone_BedDualZone:
  "clickZone (BedDualZone theme alpha l r e cb w n u) k =
     (case cb of None \<Rightarrow> None | Some f \<Rightarrow> Some (f k))"
  by (cases k; cases cb) (simp_all add: clickZone_def BedDualZone_def zoneView_def Let_def)

lemma pressed_BedDualZone:
  "map (\<lambda>z. (zkey z, ariaPressed z)) (zoneViews (BedDualZone theme alpha l r e cb w n u)) =
     [(Left, e = Some Left), (Right, e = Some Right)]"
  by (simp add: BedDualZone_def zoneView_def Let_def)

lemma targetLine_iff:
  "targetLine u st \<noteq> None \<longleftrightarrow> mode st \<noteq> ''off'' \<and> targetTemp st \<noteq> None"
  by (auto simp add: targetLine_def split: option.splits)

lemma scheduleBadge_iff:
  "scheduleBadge st \<noteq> None \<longleftrightarrow>
     (\<exists>sch. schedule st = Some sch \<and> (running sch \<or> (\<exists>t. nextStart sch = Some t \<and> t \<noteq> [])))"
  by (auto simp add: scheduleBadge_def scheduleLabel_def split: option.splits)

section \<open>The claims\<close>

text \<open>
  C1. For every demo state and every side, each per-side editing operation
  (\<open>changeTemp\<close>, \<open>togglePower\<close>, \<open>toggleSchedule\<close>, \<open>setScheduleStart\<close>) leaves the
  zone state of every other side, that is of the opposite side, as it was.
\<close>

theorem updateZone_frame:
  assumes "k \<noteq> side"
  shows "zones (changeTemp side delta s) k = zones s k \<and>
         zones (togglePower side s) k = zones s k \<and>
         zones (toggleSchedule side r s) k = zones s k \<and>
         zones (setScheduleStart side start s) k = zones s k"
  using assms by (simp add: zone_ops zones_updateZone)

theorem updateZone_frame_witness:
  "Right \<noteq> Left \<and>
   zones (changeTemp Left 1 initial) Right = zones initial Right \<and>
   zones (togglePower Left initial) Right = zones initial Right \<and>
   zones (toggleSchedule Left True initial) Right = zones initial Right \<and>
   zones (setScheduleStart Left ''07:30'' initial) Right = zones initial Right"
  using updateZone_frame [of Right Left 1 initial True "''07:30''"] by simp

text \<open>
  C2. In every reachable demo state the mode of each zone is one of \<open>off\<close>, \<open>cool\<close>,
  \<open>heat\<close>; and each of the four zone operations, applied to any state whose modes are
  among the three, yields a state whose modes are among the three.
\<close>

theorem mode_invariant:
  "(reachable s \<longrightarrow> (\<forall>k. mode (zones s k) \<in> {''off'', ''cool'', ''heat''})) \<and>
   ((\<forall>k. mode (zones s k) \<in> {''off'', ''cool'', ''heat''}) \<longrightarrow>
      (\<forall>k. mode (zones (changeTemp side delta s) k) \<in> {''off'', ''cool'', ''heat''}) \<and>
      (\<forall>k. mode (zones (togglePower side s) k) \<in> {''off'', ''cool'', ''heat''}) \<and>
      (\<forall>k. mode (zones (toggleSchedule side r s) k) \<in> {''off'', ''cool'', ''heat''}) \<and>
      (\<forall>k. mode (zones (setScheduleStart side start s) k) \<in> {''off'', ''cool'', ''heat''}))"
proof -
  have "reachable s \<longrightarrow> (\<forall>k. mode (zones s k) \<in> Mode)"
    using reachable_modes by blast
  moreover have "(\<forall>k. mode (zones s k) \<in> Mode) \<longrightarrow>
      (\<forall>k. mode (zones (changeTemp side delta s) k) \<in> Mode) \<and>
      (\<forall>k. mode (zones (togglePower side s) k) \<in> Mode) \<and>
      (\<forall>k. mode (zones (toggleSchedule side r s) k) \<in> Mode) \<and>
      (\<forall>k. mode (zones (setScheduleStart side start s) k) \<in> Mode)"
    by (simp add: zone_ops zones_updateZone updater_modes)
  ultimately show ?thesis
    unfolding Mode_def by blast
qed

theorem mode_invariant_witness:
  "reachable (dispatch PowerClick initial) \<and>
   (\<forall>k. mode (zones (dispatch PowerClick initial) k) \<in> {''off'', ''cool'', ''heat''}) \<and>
   (\<forall>k. mode (zones (changeTemp Left 1 (dispatch PowerClick initial)) k)
          \<in> {''off'', ''cool'', ''heat''}) \<and>
   (\<forall>k. mode (zones (togglePower Left (dispatch PowerClick initial)) k)
          \<in> {''off'', ''cool'', ''heat''}) \<and>
   (\<forall>k. mode (zones (toggleSchedule Left True (dispatch PowerClick initial)) k)
          \<in> {''off'', ''cool'', ''heat''}) \<and>
   (\<forall>k. mode (zones (setScheduleStart Left ''07:30'' (dispatch PowerClick initial)) k)
          \<in> {''off'', ''cool'', ''heat''})"
proof -
  have "enabled initial PowerClick"
    by (simp add: initial_def onHomePage_def)
  then have r: "reachable (dispatch PowerClick initial)"
    by (rule reachable.event [OF reachable.mount])
  show ?thesis
    using r mode_invariant [of "dispatch PowerClick initial" Left 1 True "''07:30''"] by blast
qed



text \<open>
  C4. A click on the zone of side \<open>k\<close> calls \<open>onSideClick\<close> with exactly \<open>k\<close>. In the demo,
  on the pages that render the widget, that call is \<open>setEditing k\<close>: the editing selection
  becomes \<open>k\<close>, and the widget of the new state marks the zone of \<open>k\<close>, and no other, as
  the edited one.
\<close>

theorem side_click_selects:
  "clickZone (BedDualZone theme alpha l r e (Some f) w n u) k = Some (f k) \<and>
   (page s \<noteq> ''settings'' \<longrightarrow>
      map_option (\<lambda>v. clickZone v k) (demoWidget theme alpha s) = Some (Some (setEditing k)) \<and>
      map_option (\<lambda>v. map (\<lambda>z. (zkey z, ariaPressed z)) (zoneViews v))
          (demoWidget theme alpha (setEditing k s))
        = Some [(Left, k = Left), (Right, k = Right)]) \<and>
   dispatch (SideClick k) s = setEditing k s \<and>
   editing (setEditing k s) = k"
  by (auto simp add: clickZone_BedDualZone pressed_BedDualZone demoWidget_def Let_def
      setEditing_def onHomePage_def onSettingsPage_def)

theorem side_click_selects_witness:
  "page initial \<noteq> ''settings'' \<and>
   map_option (\<lambda>v. clickZone v Right)
     (demoWidget
        \<lparr> grey200 = ''#eeeeee'', grey400 = ''#bdbdbd'', grey700 = ''#616161'',
          grey800 = ''#424242'', secondary_main = ''#ce93d8'', info_main = ''#29b6f6'',
          error_main = ''#f44336'' \<rparr>
        (\<lambda>color value. color) initial)
     = Some (Some (setEditing Right)) \<and>
   editing (dispatch (SideClick Right) initial) = Right"
  using side_click_selects [of
      "\<lparr> grey200 = ''#eeeeee'', grey400 = ''#bdbdbd'', grey700 = ''#616161'',
          grey800 = ''#424242'', secondary_main = ''#ce93d8'', info_main = ''#29b6f6'',
          error_main = ''#f44336'' \<rparr>"
      "\<lambda>color value. color" "zones initial Left" "zones initial Right" None
      "\<lambda>k. setEditing k" None None None Right initial]
  by (simp add: initial_def)

text \<open>
  C5. The unit switch changes the unit and nothing else: both zones, hence the stored
  \<open>currentTemp\<close> and \<open>targetTemp\<close> of each, the editing selection, the page and the side
  names are as before.
\<close>

theorem unit_switch_frame:
  "zones (dispatch (UnitSwitch checked) s) = zones s \<and>
   currentTemp (zones (dispatch (UnitSwitch checked) s) k) = currentTemp (zones s k) \<and>
   targetTemp (zones (dispatch (UnitSwitch checked) s) k) = targetTemp (zones s k) \<and>
   editing (dispatch (UnitSwitch checked) s) = editing s \<and>
   page (dispatch (UnitSwitch checked) s) = page s \<and>
   sideNames (dispatch (UnitSwitch checked) s) = sideNames s \<and>
   unit (dispatch (UnitSwitch checked) s) = (if checked then ''C'' else ''F'')"
  by (simp add: setUnit_def)

theorem unit_switch_frame_witness:
  "targetTemp (zones (dispatch (UnitSwitch True) initial) Left) = Some 68 \<and>
   currentTemp (zones (dispatch (UnitSwitch True) initial) Left) = 72 \<and>
   editing (dispatch (UnitSwitch True) initial) = Left \<and>
   page (dispatch (UnitSwitch True) initial) = ''home'' \<and>
   unit (dispatch (UnitSwitch True) initial) = ''C''"
  using unit_switch_frame [of True initial Left] by (simp add: initial_def)

text \<open>
  C6, as the code has it. A zone shows a target line exactly when its mode is not \<open>off\<close>
  and \<open>targetTemp\<close> is present; it shows a schedule badge exactly when a schedule is
  present that is running or has a \<open>nextStart\<close> that is not the empty string. An absent
  \<open>targetTemp\<close> gives no target line and an absent schedule gives no badge.

  The claim as written asks for a badge whenever a \<open>nextStart\<close> value is present. The
  first theorem is a state of the demo, reached by opening the schedule page and clearing
  the time field, where \<open>nextStart\<close> is present and empty and no badge is shown.
\<close>

theorem empty_start_no_badge:
  "schedule (zones (run [Navigate ScheduleAction, StartsAt []] initial) Left)
     = Some \<lparr> running = False, nextStart = Some [] \<rparr> \<and>
   scheduleBadge (zones (run [Navigate ScheduleAction, StartsAt []] initial) Left) = None"
  by (simp add: initial_def setPage_def setScheduleStart_def updateZone_def
      setScheduleStart_updater_def scheduleBadge_def scheduleLabel_def)

text \<open>C6, amended: the statement of the first paragraph above.\<close>

theorem zone_labels_shown:
  "(targetText (zoneView theme alpha e cb u k st name) \<noteq> None \<longleftrightarrow>
      mode st \<noteq> ''off'' \<and> targetTemp st \<noteq> None) \<and>
   (scheduleText (zoneView theme alpha e cb u k st name) \<noteq> None \<longleftrightarrow>
      (\<exists>sch. schedule st = Some sch \<and>
         (running sch \<or> (\<exists>t. nextStart sch = Some t \<and> t \<noteq> [])))) \<and>
   (targetTemp st = None \<longrightarrow> targetText (zoneView theme alpha e cb u k st name) = None) \<and>
   (schedule st = None \<longrightarrow> scheduleText (zoneView theme alpha e cb u k st name) = None)"
proof -
  have t: "targetText (zoneView theme alpha e cb u k st name) = targetLine u st"
    and b: "scheduleText (zoneView theme alpha e cb u k st name) = scheduleBadge st"
    by (simp_all add: zoneView_def Let_def)
  have "targetTemp st = None \<longrightarrow> targetLine u st = None"
    using targetLine_iff [of u st] by blast
  moreover have "schedule st = None \<longrightarrow> scheduleBadge st = None"
    using scheduleBadge_iff [of st] by auto
  ultimately show ?thesis
    unfolding t b using targetLine_iff [of u st] scheduleBadge_iff [of st] by blast
qed

theorem zone_labels_shown_witness:
  "targetTemp (zones initial Right) = None \<and>
   targetText (zoneView
      \<lparr> grey200 = ''#eeeeee'', grey400 = ''#bdbdbd'', grey700 = ''#616161'',
          grey800 = ''#424242'', secondary_main = ''#ce93d8'', info_main = ''#29b6f6'',
          error_main = ''#f44336'' \<rparr>
      (\<lambda>color value. color) (Some Left) (Some (\<lambda>k. setEditing k)) ''F'' Right
      (zones initial Right) ''Right'') = None \<and>
   schedule (zones initial Right\<lparr> schedule := None \<rparr>) = None \<and>
   scheduleText (zoneView
      \<lparr> grey200 = ''#eeeeee'', grey400 = ''#bdbdbd'', grey700 = ''#616161'',
          grey800 = ''#424242'', secondary_main = ''#ce93d8'', info_main = ''#29b6f6'',
          error_main = ''#f44336'' \<rparr>
      (\<lambda>color value. color) (Some Left) (Some (\<lambda>k. setEditing k)) ''F'' Right
      (zones initial Right\<lparr> schedule := None \<rparr>) ''Right'') = None"
  using
    zone_labels_shown [of
      "\<lparr> grey200 = ''#eeeeee'', grey400 = ''#bdbdbd'', grey700 = ''#616161'',
          grey800 = ''#424242'', secondary_main = ''#ce93d8'', info_main = ''#29b6f6'',
          error_main = ''#f44336'' \<rparr>"
      "\<lambda>color value. color" "Some Left" "Some (\<lambda>k. setEditing k)" "''F''" Right
      "zones initial Right" "''Right''"]
    zone_labels_shown [of
      "\<lparr> grey200 = ''#eeeeee'', grey400 = ''#bdbdbd'', grey700 = ''#616161'',
          grey800 = ''#424242'', secondary_main = ''#ce93d8'', info_main = ''#29b6f6'',
          error_main = ''#f44336'' \<rparr>"
      "\<lambda>color value. color" "Some Left" "Some (\<lambda>k. setEditing k)" "''F''" Right
      "zones initial Right\<lparr> schedule := None \<rparr>" "''Right''"]
  by (simp add: initial_def)

text \<open>
  C7. A click in the bottom navigation changes the page and nothing else: the zones, the
  editing selection, the unit and the side names are as before. The new page is the
  value of the action clicked, one of \<open>home\<close>, \<open>settings\<close>, \<open>schedule\<close>; and in every
  reachable state the page is one of these three.
\<close>

theorem navigation_frame:
  "zones (dispatch (Navigate a) s) = zones s \<and>
   editing (dispatch (Navigate a) s) = editing s \<and>
   unit (dispatch (Navigate a) s) = unit s \<and>
   sideNames (dispatch (Navigate a) s) = sideNames s \<and>
   page (dispatch (Navigate a) s) = actionValue a \<and>
   page (dispatch (Navigate a) s) \<in> {''home'', ''settings'', ''schedule''} \<and>
   (reachable s \<longrightarrow> page s \<in> {''home'', ''settings'', ''schedule''})"
  using actionValue_Page [of a] reachable_page [of s]
  by (auto simp add: setPage_def Page_def)

theorem navigation_frame_witness:
  "reachable (dispatch (Navigate SettingsAction) initial) \<and>
   page (dispatch (Navigate SettingsAction) initial) = ''settings'' \<and>
   zones (dispatch (Navigate HomeAction) (dispatch (Navigate SettingsAction) initial))
     = zones (dispatch (Navigate SettingsAction) initial) \<and>
   page (dispatch (Navigate HomeAction) (dispatch (Navigate SettingsAction) initial)) = ''home''"
proof -
  have "enabled initial (Navigate SettingsAction)"
    by simp
  then have r: "reachable (dispatch (Navigate SettingsAction) initial)"
    by (rule reachable.event [OF reachable.mount])
  show ?thesis
    using r navigation_frame [of HomeAction "dispatch (Navigate SettingsAction) initial"]
      navigation_frame [of SettingsAction initial]
    by simp
qed

text \<open>
  C8. What the widget derives for display is a function of its props alone. Two renders
  with the same zone states, editing selection, width, side names and unit, under any two
  themes, any two \<open>alpha\<close> functions and any two click handlers, agree on every zone's key,
  name, temperature text, target line, schedule badge, aria label, title, pressed state,
  highlight, opacity and corner radius, and on the width. The style chosen for the mode
  is the entry of \<open>modeStyles\<close> under the zone's own mode.
\<close>

theorem BedDualZone_pure:
  "map (\<lambda>z. (zkey z, sideLabel z, tempText z, targetText z, scheduleText z, ariaLabel z, title z,
             ariaPressed z, editSx z \<noteq> None, opacity z, borderRadius z))
     (zoneViews (BedDualZone theme1 alpha1 l r e cb1 w n u))
   = map (\<lambda>z. (zkey z, sideLabel z, tempText z, targetText z, scheduleText z, ariaLabel z, title z,
               ariaPressed z, editSx z \<noteq> None, opacity z, borderRadius z))
       (zoneViews (BedDualZone theme2 alpha2 l r e cb2 w n u)) \<and>
   maxWidth (BedDualZone theme1 alpha1 l r e cb1 w n u)
     = maxWidth (BedDualZone theme2 alpha2 l r e cb2 w n u) \<and>
   map modeSx (zoneViews (BedDualZone theme1 alpha1 l r e cb1 w n u))
     = [modeStyles theme1 alpha1 (mode l), modeStyles theme1 alpha1 (mode r)]"
  by (simp add: BedDualZone_def zoneView_def Let_def)

theorem BedDualZone_pure_witness:
  "map (\<lambda>z. (sideLabel z, ariaLabel z, ariaPressed z, opacity z))
     (zoneViews (BedDualZone
        \<lparr> grey200 = ''#eeeeee'', grey400 = ''#bdbdbd'', grey700 = ''#616161'',
          grey800 = ''#424242'', secondary_main = ''#ce93d8'', info_main = ''#29b6f6'',
          error_main = ''#f44336'' \<rparr>
        (\<lambda>color value. color) (zones initial Left) (zones initial Right) (Some Left)
        (Some (\<lambda>k. setEditing k)) None None (Some ''C'')))
   = map (\<lambda>z. (sideLabel z, ariaLabel z, ariaPressed z, opacity z))
       (zoneViews (BedDualZone
          \<lparr> grey200 = ''#eee'', grey400 = ''#bbb'', grey700 = ''#666'',
          grey800 = ''#444'', secondary_main = ''#9c27b0'', info_main = ''#0288d1'',
          error_main = ''#d32f2f'' \<rparr>
          (\<lambda>color value. []) (zones initial Left) (zones initial Right) (Some Left)
          (Some (\<lambda>k. k)) None None (Some ''C'')))"
  using BedDualZone_pure [of
      "\<lparr> grey200 = ''#eeeeee'', grey400 = ''#bdbdbd'', grey700 = ''#616161'',
          grey800 = ''#424242'', secondary_main = ''#ce93d8'', info_main = ''#29b6f6'',
          error_main = ''#f44336'' \<rparr>"
      "\<lambda>color value. color" "zones initial Left" "zones initial Right" "Some Left"
      "Some (\<lambda>k. setEditing k)" None None "Some ''C''"
      "\<lparr> grey200 = ''#eee'', grey400 = ''#bbb'', grey700 = ''#666'',
          grey800 = ''#444'', secondary_main = ''#9c27b0'', info_main = ''#0288d1'',
          error_main = ''#d32f2f'' \<rparr>"
      "\<lambda>color value. []" "Some (\<lambda>k. k)"]
  by (simp add: BedDualZone_def zoneView_def Let_def)



text \<open>
  C10. \<open>togglePower\<close> replaces the zone by \<open>togglePower_updater\<close> of it. The new mode is
  \<open>off\<close> exactly when the old one was not. When the old mode was \<open>off\<close>, the new
  \<open>targetTemp\<close> is present, the old one or \<open>currentTemp\<close> where there was none, and the
  new mode is \<open>heat\<close> when that target is above \<open>currentTemp\<close>, \<open>cool\<close> when it is below
  and \<open>heat\<close> when the two are equal.
\<close>

theorem togglePower_alternates:
  "zones (togglePower side s) side = togglePower_updater (zones s side) \<and>
   (mode (togglePower_updater z) = ''off'' \<longleftrightarrow> mode z \<noteq> ''off'') \<and>
   (mode z = ''off'' \<longrightarrow>
      targetTemp (togglePower_updater z)
        = Some (case targetTemp z of None \<Rightarrow> currentTemp z | Some t \<Rightarrow> t) \<and>
      (targetTemp z = None \<longrightarrow> targetTemp (togglePower_updater z) = Some (currentTemp z)) \<and>
      mode (togglePower_updater z)
        = (if (case targetTemp z of None \<Rightarrow> currentTemp z | Some t \<Rightarrow> t) > currentTemp z
           then ''heat''
           else if (case targetTemp z of None \<Rightarrow> currentTemp z | Some t \<Rightarrow> t) < currentTemp z
           then ''cool'' else ''heat''))"
  by (simp add: togglePower_def zones_updateZone togglePower_updater_def Let_def)

theorem togglePower_alternates_witness:
  "mode (zones initial Right) = ''off'' \<and> targetTemp (zones initial Right) = None \<and>
   targetTemp (togglePower_updater (zones initial Right)) = Some 70 \<and>
   mode (togglePower_updater (zones initial Right)) = ''heat'' \<and>
   mode (zones (togglePower Right initial) Right) = ''heat''"
  using togglePower_alternates [of Right initial "zones initial Right"]
  by (simp add: initial_def)

end
